theory Spec2Isabelle
  imports Complex_Main
begin

section \<open>Data model (shared schema)\<close>

text \<open>
  A JavaScript \<open>Date\<close> that is valid is its time value, the number of milliseconds since
  the epoch; an \<open>Invalid Date\<close> is \<open>None\<close> of \<open>int option\<close> where the code can meet one.
  Time values are integers without bound: the dates are taken to lie far enough inside
  the range of \<open>Date\<close> for the day arithmetic of the code to stay inside it.
  Table rows are records, a table is the list of its rows in insertion order, and a
  \<open>serial\<close> primary key is drawn from a counter kept beside the table. Only the columns
  that the booking, payment and receipt code reads or writes are kept.
  The database is taken to answer every query: connection failures and column-range
  errors are not part of the model, so a storage method throws only where its own code
  does.
\<close>

record equipment =
  e_id :: int
  e_ownerId :: int
  e_name :: string
  e_dailyRate :: int
  e_availability :: bool

record booking =
  b_id :: int
  b_equipmentId :: int
  b_userId :: int
  b_startDate :: int
  b_endDate :: int
  b_totalPrice :: int
  b_status :: string
  b_razorpayOrderId :: "string option"
  b_razorpayPaymentId :: "string option"
  b_isRated :: bool
  b_createdAt :: int
  b_lastStatusUpdate :: int

record receipt_metadata =
  equipment_name :: "string option"
  booking_dates :: "(int \<times> int) option"
  payment_method :: "string option"

record receipt =
  r_id :: int
  r_bookingId :: int
  r_userId :: int
  r_amount :: int
  r_status :: string
  r_generatedAt :: int
  r_pdfUrl :: "string option"
  r_razorpayPaymentId :: "string option"
  r_metadata :: receipt_metadata

record db =
  users :: "int list"
  equipmentTable :: "equipment list"
  bookings :: "booking list"
  receipts :: "receipt list"
  bookings_id_seq :: int
  receipts_id_seq :: int

text \<open>
  A thrown value is an \<open>Error\<close> with its message, or one of the two errors the runtime
  raises by itself in the code below: the \<open>SyntaxError\<close> of \<open>JSON.parse\<close> and the
  \<open>TypeError\<close> of reading a property of \<open>undefined\<close>. \<open>Inl\<close> of a sum is a throw.
\<close>

datatype exn = Error string | TypeError | SyntaxError

section \<open>Storage (class DatabaseStorage)\<close>

definition getEquipment :: "db \<Rightarrow> int \<Rightarrow> equipment option" where
  "getEquipment d i = find (\<lambda>e. e_id e = i) (equipmentTable d)"

text \<open>
  \<open>updateEquipment\<close> is only ever called with \<open>{availability: v}\<close> by the code in scope:
  \<open>set_availability\<close> is that \<open>update ... set ... where id = i\<close> on the rows.
  The method throws when the update returns no row.
\<close>

definition set_availability :: "int \<Rightarrow> bool \<Rightarrow> equipment list \<Rightarrow> equipment list" where
  "set_availability i v rows = map (\<lambda>e. if e_id e = i then e\<lparr>e_availability := v\<rparr> else e) rows"

definition updateEquipment :: "db \<Rightarrow> int \<Rightarrow> bool \<Rightarrow> exn + (equipment \<times> db)" where
  "updateEquipment d i v =
     (let rows = set_availability i v (equipmentTable d)
      in case find (\<lambda>e. e_id e = i) rows of
           None \<Rightarrow> Inl (Error ''Failed to update equipment'')
         | Some e \<Rightarrow> Inr (e, d\<lparr>equipmentTable := rows\<rparr>))"

definition getUser :: "db \<Rightarrow> int \<Rightarrow> int option" where
  "getUser d i = find (\<lambda>u. u = i) (users d)"

definition getBooking :: "db \<Rightarrow> int \<Rightarrow> booking option" where
  "getBooking d i = find (\<lambda>b. b_id b = i) (bookings d)"

record insert_booking =
  ib_equipmentId :: int
  ib_userId :: int
  ib_startDate :: int
  ib_endDate :: int
  ib_totalPrice :: int
  ib_status :: string
  ib_razorpayOrderId :: "string option"
  ib_razorpayPaymentId :: "string option"

definition createBooking :: "db \<Rightarrow> insert_booking \<Rightarrow> int \<Rightarrow> booking \<times> db" where
  "createBooking d ins now =
     (let b = \<lparr> b_id = bookings_id_seq d,
                b_equipmentId = ib_equipmentId ins,
                b_userId = ib_userId ins,
                b_startDate = ib_startDate ins,
                b_endDate = ib_endDate ins,
                b_totalPrice = ib_totalPrice ins,
                b_status = (if ib_status ins = [] then ''pending'' else ib_status ins),
                b_razorpayOrderId = ib_razorpayOrderId ins,
                b_razorpayPaymentId = ib_razorpayPaymentId ins,
                b_isRated = False,
                b_createdAt = now,
                b_lastStatusUpdate = now \<rparr>
      in (b, d\<lparr>bookings := bookings d @ [b], bookings_id_seq := bookings_id_seq d + 1\<rparr>))"

text \<open>
  The \<open>Partial<Booking>\<close> objects passed to \<open>updateBooking\<close> set a status and at most one
  of the two gateway identifiers; a field that is \<open>None\<close> is absent from the object.
  \<open>patched_rows\<close> is the \<open>update ... set ... where id = i\<close> on the rows.
\<close>

record booking_patch =
  set_status :: "string option"
  set_razorpayOrderId :: "string option"
  set_razorpayPaymentId :: "string option"

definition apply_patch :: "booking_patch \<Rightarrow> int \<Rightarrow> booking \<Rightarrow> booking" where
  "apply_patch p now b =
     b\<lparr> b_status := (case set_status p of None \<Rightarrow> b_status b | Some s \<Rightarrow> s),
        b_razorpayOrderId :=
          (case set_razorpayOrderId p of None \<Rightarrow> b_razorpayOrderId b | Some x \<Rightarrow> Some x),
        b_razorpayPaymentId :=
          (case set_razorpayPaymentId p of None \<Rightarrow> b_razorpayPaymentId b | Some x \<Rightarrow> Some x),
        b_lastStatusUpdate := now \<rparr>"

definition patched_rows :: "int \<Rightarrow> booking_patch \<Rightarrow> int \<Rightarrow> booking list \<Rightarrow> booking list" where
  "patched_rows i p now rows = map (\<lambda>b. if b_id b = i then apply_patch p now b else b) rows"

definition updateBooking :: "db \<Rightarrow> int \<Rightarrow> booking_patch \<Rightarrow> int \<Rightarrow> exn + (booking \<times> db)" where
  "updateBooking d i p now =
     (let rows = patched_rows i p now (bookings d)
      in case find (\<lambda>b. b_id b = i) rows of
           None \<Rightarrow> Inl (Error ''Failed to update booking'')
         | Some b \<Rightarrow> Inr (b, d\<lparr>bookings := rows\<rparr>))"

text \<open>Day boundaries in UTC: \<open>setUTCHours(0,0,0,0)\<close> and \<open>setUTCHours(23,59,59,999)\<close>.\<close>

definition ms_per_day :: int where
  "ms_per_day = 1000 * 3600 * 24"

definition start_of_day :: "int \<Rightarrow> int" where
  "start_of_day t = t - t mod ms_per_day"

definition end_of_day :: "int \<Rightarrow> int" where
  "end_of_day t = t - t mod ms_per_day + (ms_per_day - 1)"

text \<open>The \<open>where\<close> clause of \<open>getBookingsByDateRange\<close>, on one row.\<close>

definition in_date_range :: "int \<Rightarrow> int \<Rightarrow> booking \<Rightarrow> bool" where
  "in_date_range start end b =
     ((start \<le> b_startDate b \<and> b_startDate b \<le> end)
      \<or> (start \<le> b_endDate b \<and> b_endDate b \<le> end)
      \<or> (b_startDate b \<le> start \<and> end \<le> b_endDate b))"

definition getBookingsByDateRange :: "db \<Rightarrow> int \<Rightarrow> int option \<Rightarrow> int option \<Rightarrow> booking list" where
  "getBookingsByDateRange d equipmentId startDate endDate =
     (case (startDate, endDate) of
        (Some s, Some e) \<Rightarrow>
          filter (\<lambda>b. b_equipmentId b = equipmentId \<and> in_date_range (start_of_day s) (end_of_day e) b)
                 (bookings d)
      | _ \<Rightarrow> [])"

definition checkEquipmentAvailability :: "db \<Rightarrow> int \<Rightarrow> int option \<Rightarrow> int option \<Rightarrow> bool" where
  "checkEquipmentAvailability d equipmentId startDate endDate =
     (case getEquipment d equipmentId of
        None \<Rightarrow> False
      | Some equipment \<Rightarrow>
          if \<not> e_availability equipment then False
          else
            let existingBookings = getBookingsByDateRange d equipmentId startDate endDate;
                hasConflictingBooking =
                  list_ex (\<lambda>b. b_status b = ''paid'' \<or> b_status b = ''awaiting_payment'')
                          existingBookings
            in \<not> hasConflictingBooking)"

record insert_receipt =
  ir_bookingId :: int
  ir_userId :: int
  ir_amount :: int
  ir_status :: string
  ir_razorpayPaymentId :: "string option"
  ir_pdfUrl :: "string option"
  ir_metadata :: receipt_metadata

definition createReceipt :: "db \<Rightarrow> insert_receipt \<Rightarrow> int \<Rightarrow> receipt \<times> db" where
  "createReceipt d ins now =
     (let r = \<lparr> r_id = receipts_id_seq d,
                r_bookingId = ir_bookingId ins,
                r_userId = ir_userId ins,
                r_amount = ir_amount ins,
                r_status = ir_status ins,
                r_generatedAt = now,
                r_pdfUrl = ir_pdfUrl ins,
                r_razorpayPaymentId = ir_razorpayPaymentId ins,
                r_metadata = ir_metadata ins \<rparr>
      in (r, d\<lparr>receipts := receipts d @ [r], receipts_id_seq := receipts_id_seq d + 1\<rparr>))"


section \<open>Payment gateway adapter\<close>

text \<open>
  The process environment, and the keyed hash \<open>H key message\<close> standing for
  \<open>crypto.createHmac("sha256", key).update(message).digest("hex")\<close>, which every
  function that checks a signature takes as its first argument.
  The gateway is outside the program: the answer it gives to a call is an argument of
  the operation that makes the call.
\<close>

record env =
  RAZORPAY_KEY_ID :: string
  RAZORPAY_KEY_SECRET :: string
  RAZORPAY_WEBHOOK_SECRET :: "string option"

record payment_config =
  pc_id :: string
  pc_keyId :: string
  pc_amount :: int
  pc_currency :: string
  pc_name :: string
  pc_description :: string

text \<open>
  What \<open>razorpay.orders.create\<close> does: it throws, or it returns an order whose \<open>id\<close>
  may be missing.
\<close>

datatype order_result = Order_throws exn | Order "string option"

definition createPaymentSession ::
    "env \<Rightarrow> order_result \<Rightarrow> int \<Rightarrow> int \<Rightarrow> string \<Rightarrow> exn + payment_config" where
  "createPaymentSession ev gw bookingId amount equipmentName =
     (if amount \<le> 0 then Inl (Error ''Invalid amount. Amount must be greater than 0'')
      else
        case gw of
          Order_throws e \<Rightarrow> Inl e
        | Order None \<Rightarrow> Inl (Error ''Failed to create Razorpay order'')
        | Order (Some oid) \<Rightarrow>
            if oid = [] then Inl (Error ''Failed to create Razorpay order'')
            else Inr \<lparr> pc_id = oid,
                       pc_keyId = RAZORPAY_KEY_ID ev,
                       pc_amount = amount,
                       pc_currency = ''INR'',
                       pc_name = ''AgriRent Equipment'',
                       pc_description = ''Booking for '' @ equipmentName \<rparr>)"

definition verifyPaymentSignature ::
    "(string \<Rightarrow> string \<Rightarrow> string) \<Rightarrow> env \<Rightarrow> string \<Rightarrow> string \<Rightarrow> string \<Rightarrow> bool" where
  "verifyPaymentSignature H ev orderId paymentId signature =
     (let text = orderId @ ''|'' @ paymentId;
          expectedSignature = H (RAZORPAY_KEY_SECRET ev) text
      in expectedSignature = signature)"

text \<open>
  \<open>generateReceipt\<close>: \<open>fetched\<close> is the answer of \<open>razorpay.payments.fetch\<close> (\<open>None\<close>
  when it throws) and \<open>pdf\<close> the data URL of the rendered document. Every throw inside
  is rethrown as \<open>Failed to generate receipt\<close>.
\<close>

record razorpay_payment =
  rp_status :: string
  rp_amount :: int
  rp_method :: string
  rp_created_at :: int

definition generateReceipt ::
    "db \<Rightarrow> razorpay_payment option \<Rightarrow> string \<Rightarrow> int \<Rightarrow> string \<Rightarrow> int \<Rightarrow> exn + (receipt \<times> db)" where
  "generateReceipt d fetched pdf bookingId paymentId now =
     (case fetched of
        None \<Rightarrow> Inl (Error ''Failed to generate receipt'')
      | Some payment \<Rightarrow>
          (case getBooking d bookingId of
             None \<Rightarrow> Inl (Error ''Failed to generate receipt'')
           | Some booking \<Rightarrow>
               (case getEquipment d (b_equipmentId booking) of
                  None \<Rightarrow> Inl (Error ''Failed to generate receipt'')
                | Some equipment \<Rightarrow>
                    (case getUser d (b_userId booking) of
                       None \<Rightarrow> Inl (Error ''Failed to generate receipt'')
                     | Some user \<Rightarrow>
                         (let (receipt, d') =
                                createReceipt d
                                  \<lparr> ir_bookingId = bookingId,
                                    ir_userId = b_userId booking,
                                    ir_amount = rp_amount payment,
                                    ir_status = rp_status payment,
                                    ir_razorpayPaymentId = Some paymentId,
                                    ir_pdfUrl = Some pdf,
                                    ir_metadata =
                                      \<lparr> equipment_name = Some (e_name equipment),
                                        booking_dates = Some (b_startDate booking, b_endDate booking),
                                        payment_method = Some (rp_method payment) \<rparr> \<rparr>
                                  now
                          in Inr (receipt\<lparr>r_pdfUrl := Some pdf\<rparr>, d'))))))"

section \<open>Routes\<close>

text \<open>
  A handler takes the request and the database and returns the response with the
  database it leaves. Writes are not transactional: what a handler has written when a
  later call throws stays written. \<open>now\<close> is the clock, read once per request.
  In \<open>ErrorJson\<close> the third field is the \<open>details\<close> member where it carries the message of
  a caught exception; a \<open>details\<close> member that is a fixed text or a list of schema issues is
  left out.
\<close>

datatype response =
    SendStatus nat
  | ErrorJson nat string "exn option"
  | Created booking payment_config
  | Verified booking receipt
  | ReceiptJson receipt
  | Received
  | WebhookError exn

subsection \<open>POST /api/bookings\<close>

text \<open>
  The request body after JSON decoding. A field is \<open>None\<close> when it is absent; for the
  required \<open>equipmentId\<close> also when it is not a number, and for the two dates also when
  \<open>z.coerce.date()\<close> cannot turn the value into a valid date. \<open>insertBookingSchema\<close>
  checks nothing else about the dates. The optional members are of their declared type
  when present. The members \<open>status\<close> and \<open>totalPrice\<close> of a body are not kept: the handler
  overwrites the first before parsing and the second before the insert.
\<close>

record booking_body =
  rq_equipmentId :: "int option"
  rq_startDate :: "int option"
  rq_endDate :: "int option"
  rq_razorpayOrderId :: "string option"
  rq_razorpayPaymentId :: "string option"

record parsed_booking =
  pb_equipmentId :: int
  pb_userId :: int
  pb_startDate :: int
  pb_endDate :: int
  pb_razorpayOrderId :: "string option"
  pb_razorpayPaymentId :: "string option"

definition insertBookingSchema :: "booking_body \<Rightarrow> int \<Rightarrow> parsed_booking option" where
  "insertBookingSchema body userId =
     (case (rq_equipmentId body, rq_startDate body, rq_endDate body) of
        (Some eid, Some s, Some e) \<Rightarrow>
          Some \<lparr> pb_equipmentId = eid, pb_userId = userId, pb_startDate = s, pb_endDate = e,
                 pb_razorpayOrderId = rq_razorpayOrderId body,
                 pb_razorpayPaymentId = rq_razorpayPaymentId body \<rparr>
      | _ \<Rightarrow> None)"

text \<open>
  \<open>Math.ceil(x / y)\<close> on integers, for \<open>y > 0\<close>. The quotient of the code is a double; it
  is the exact one as long as the two dates are less than \<open>2^26\<close> days apart.
\<close>

definition ceil_div :: "int \<Rightarrow> int \<Rightarrow> int" where
  "ceil_div x y = - ((- x) div y)"

definition totalDays :: "int \<Rightarrow> int \<Rightarrow> int" where
  "totalDays startDate endDate = max 1 (ceil_div (endDate - startDate) (1000 * 3600 * 24) + 1)"

text \<open>The \<open>try\<close> block of the handler: the lock, the gateway order, the status update.\<close>

definition lock_and_order ::
    "env \<Rightarrow> order_result \<Rightarrow> int \<Rightarrow> parsed_booking \<Rightarrow> equipment \<Rightarrow> booking \<Rightarrow> int \<Rightarrow> db
      \<Rightarrow> (exn + response) \<times> db" where
  "lock_and_order ev gw now parsed equipment booking totalAmount d =
     (case updateEquipment d (pb_equipmentId parsed) False of
        Inl e \<Rightarrow> (Inl e, d)
      | Inr (_, d1) \<Rightarrow>
          (case createPaymentSession ev gw (b_id booking) (totalAmount * 100) (e_name equipment) of
             Inl e \<Rightarrow> (Inl e, d1)
           | Inr razorpayOrder \<Rightarrow>
               (case updateBooking d1 (b_id booking)
                       \<lparr> set_status = Some ''awaiting_payment'',
                         set_razorpayOrderId = Some (pc_id razorpayOrder),
                         set_razorpayPaymentId = None \<rparr> now of
                  Inl e \<Rightarrow> (Inl e, d1)
                | Inr (updatedBooking, d2) \<Rightarrow> (Inr (Created updatedBooking razorpayOrder), d2))))"

text \<open>The \<open>catch (paymentError)\<close> block; a throw inside it reaches the outer \<open>catch\<close>.\<close>

definition revert_lock :: "exn \<Rightarrow> int \<Rightarrow> parsed_booking \<Rightarrow> booking \<Rightarrow> db \<Rightarrow> response \<times> db" where
  "revert_lock paymentError now parsed booking d =
     (case updateEquipment d (pb_equipmentId parsed) True of
        Inl e \<Rightarrow> (ErrorJson 500 ''Failed to process booking'' (Some e), d)
      | Inr (_, d1) \<Rightarrow>
          (case updateBooking d1 (b_id booking)
                  \<lparr> set_status = Some ''payment_failed'',
                    set_razorpayOrderId = None,
                    set_razorpayPaymentId = None \<rparr> now of
             Inl e \<Rightarrow> (ErrorJson 500 ''Failed to process booking'' (Some e), d1)
           | Inr (_, d2) \<Rightarrow>
               (ErrorJson 400 ''Payment order creation failed'' (Some paymentError), d2)))"

definition post_bookings ::
    "env \<Rightarrow> order_result \<Rightarrow> int \<Rightarrow> int option \<Rightarrow> booking_body \<Rightarrow> db \<Rightarrow> response \<times> db" where
  "post_bookings ev gw now user body d =
     (case user of
        None \<Rightarrow> (SendStatus 401, d)
      | Some userId \<Rightarrow>
          (case insertBookingSchema body userId of
             None \<Rightarrow> (ErrorJson 400 ''Invalid booking data'' None, d)
           | Some parsed \<Rightarrow>
               (case getEquipment d (pb_equipmentId parsed) of
                  None \<Rightarrow> (ErrorJson 404 ''Equipment not found'' None, d)
                | Some equipment \<Rightarrow>
                    if \<not> e_availability equipment
                    then (ErrorJson 400 ''Equipment is not available for booking'' None, d)
                    else
                      let startDate = pb_startDate parsed;
                          endDate = pb_endDate parsed;
                          totalAmount = e_dailyRate equipment * totalDays startDate endDate;
                          isAvailable = checkEquipmentAvailability d (pb_equipmentId parsed)
                                          (Some startDate) (Some endDate)
                      in if \<not> isAvailable
                         then (ErrorJson 400 ''Equipment is no longer available for these dates'' None, d)
                         else
                           let (booking, d1) =
                                 createBooking d
                                   \<lparr> ib_equipmentId = pb_equipmentId parsed,
                                     ib_userId = pb_userId parsed,
                                     ib_startDate = startDate,
                                     ib_endDate = endDate,
                                     ib_totalPrice = totalAmount,
                                     ib_status = ''pending'',
                                     ib_razorpayOrderId = pb_razorpayOrderId parsed,
                                     ib_razorpayPaymentId = pb_razorpayPaymentId parsed \<rparr>
                                   now
                           in (case lock_and_order ev gw now parsed equipment booking totalAmount d1 of
                                 (Inr res, d2) \<Rightarrow> (res, d2)
                               | (Inl paymentError, d2) \<Rightarrow>
                                   revert_lock paymentError now parsed booking d2))))"

subsection \<open>POST /api/bookings/verify-payment\<close>

text \<open>
  The four body fields; \<open>None\<close> is an absent field. \<open>!x\<close> also holds of the number \<open>0\<close> and
  of the empty string.
\<close>

record verify_body =
  vb_bookingId :: "int option"
  vb_razorpay_order_id :: "string option"
  vb_razorpay_payment_id :: "string option"
  vb_razorpay_signature :: "string option"

definition post_verify_payment ::
    "(string \<Rightarrow> string \<Rightarrow> string) \<Rightarrow> env \<Rightarrow> int \<Rightarrow> verify_body \<Rightarrow> db \<Rightarrow> response \<times> db" where
  "post_verify_payment H ev now body d =
     (case (vb_bookingId body, vb_razorpay_order_id body,
            vb_razorpay_payment_id body, vb_razorpay_signature body) of
        (Some bookingId, Some razorpay_order_id, Some razorpay_payment_id, Some razorpay_signature) \<Rightarrow>
          if bookingId = 0 \<or> razorpay_order_id = [] \<or> razorpay_payment_id = []
             \<or> razorpay_signature = []
          then (ErrorJson 400 ''Missing required payment details'' None, d)
          else
            (case getBooking d bookingId of
               None \<Rightarrow> (ErrorJson 404 ''Booking not found'' None, d)
             | Some booking \<Rightarrow>
                 (case getEquipment d (b_equipmentId booking) of
                    None \<Rightarrow> (ErrorJson 404 ''Equipment not found'' None, d)
                  | Some equipment \<Rightarrow>
                      if \<not> verifyPaymentSignature H ev razorpay_order_id razorpay_payment_id
                              razorpay_signature
                      then (ErrorJson 400 ''Invalid payment signature'' None, d)
                      else
                        (case updateBooking d bookingId
                                \<lparr> set_status = Some ''paid'',
                                  set_razorpayOrderId = None,
                                  set_razorpayPaymentId = Some razorpay_payment_id \<rparr> now of
                           Inl e \<Rightarrow> (ErrorJson 500 ''Payment verification failed'' (Some e), d)
                         | Inr (updatedBooking, d1) \<Rightarrow>
                             (let (receipt, d2) =
                                    createReceipt d1
                                      \<lparr> ir_bookingId = b_id booking,
                                        ir_userId = b_userId booking,
                                        ir_amount = b_totalPrice booking * 100,
                                        ir_status = ''paid'',
                                        ir_razorpayPaymentId = Some razorpay_payment_id,
                                        ir_pdfUrl = None,
                                        ir_metadata =
                                          \<lparr> equipment_name = Some (e_name equipment),
                                            booking_dates =
                                              Some (b_startDate booking, b_endDate booking),
                                            payment_method = Some ''razorpay'' \<rparr> \<rparr>
                                      now
                              in (Verified updatedBooking receipt, d2)))))
      | _ \<Rightarrow> (ErrorJson 400 ''Missing required payment details'' None, d))"

subsection \<open>GET /api/bookings/:id/receipt\<close>


subsection \<open>POST /api/webhooks/razorpay\<close>

text \<open>
  The request is the signature header, the raw body that \<open>express.raw\<close> hands to the
  handler, and what \<open>JSON.parse\<close> makes of that body: \<open>None\<close> when it throws, otherwise
  the event. Of an event the handler reads \<open>event.payload.payment\<close> only. Reading it throws
  a \<open>TypeError\<close> when \<open>payload\<close> or \<open>payment\<close> is missing or \<open>null\<close>
  (\<open>Event_without_payment\<close>); otherwise the three members \<open>status\<close>, \<open>order_id\<close> and \<open>id\<close>
  are read, each \<open>None\<close> when absent. The members have the types that the result of
  \<open>handleWebhookEvent\<close> declares for them: \<open>bookingId\<close> a number, \<open>paymentId\<close> a string.
  The handler calls the \<open>handleWebhookEvent\<close> of its own module, not the one of the
  payment module, which the routes do not import.
\<close>

record payment_entity =
  pe_status :: "string option"
  pe_order_id :: "int option"
  pe_id :: "string option"

datatype webhook_event = Event_without_payment | Event payment_entity

record webhook_request =
  wh_signature :: "string option"
  wh_body :: string
  wh_parsed :: "webhook_event option"

datatype webhook_result = Success "int option" "string option" | Failed "int option"

definition handleWebhookEvent :: "webhook_event \<Rightarrow> exn + webhook_result option" where
  "handleWebhookEvent event =
     (case event of
        Event_without_payment \<Rightarrow> Inl TypeError
      | Event payment \<Rightarrow>
          if pe_status payment = Some ''captured''
          then Inr (Some (Success (pe_order_id payment) (pe_id payment)))
          else if pe_status payment = Some ''failed''
          then Inr (Some (Failed (pe_order_id payment)))
          else Inr None)"

text \<open>\<open>updateBooking\<close> with the \<open>bookingId\<close> of a webhook result: no row has an absent id.\<close>

definition updateBooking_by ::
    "db \<Rightarrow> int option \<Rightarrow> booking_patch \<Rightarrow> int \<Rightarrow> exn + (booking \<times> db)" where
  "updateBooking_by d bookingId p now =
     (case bookingId of
        None \<Rightarrow> Inl (Error ''Failed to update booking'')
      | Some i \<Rightarrow> updateBooking d i p now)"

definition generateReceipt_by ::
    "db \<Rightarrow> razorpay_payment option \<Rightarrow> string \<Rightarrow> int option \<Rightarrow> string \<Rightarrow> int \<Rightarrow> exn + (receipt \<times> db)" where
  "generateReceipt_by d fetched pdf bookingId paymentId now =
     (case bookingId of
        None \<Rightarrow> Inl (Error ''Failed to generate receipt'')
      | Some i \<Rightarrow> generateReceipt d fetched pdf i paymentId now)"

text \<open>The body of the handler's \<open>try\<close> after the signature check, up to \<open>res.json\<close>.\<close>

definition process_webhook ::
    "razorpay_payment option \<Rightarrow> string \<Rightarrow> int \<Rightarrow> webhook_request \<Rightarrow> db \<Rightarrow> (exn + unit) \<times> db" where
  "process_webhook fetched pdf now req d =
     (case wh_parsed req of
        None \<Rightarrow> (Inl SyntaxError, d)
      | Some event \<Rightarrow>
          (case handleWebhookEvent event of
             Inl e \<Rightarrow> (Inl e, d)
           | Inr None \<Rightarrow> (Inr (), d)
           | Inr (Some (Success bookingId paymentId)) \<Rightarrow>
               (case paymentId of
                  None \<Rightarrow> (Inr (), d)
                | Some pid \<Rightarrow>
                    if pid = [] then (Inr (), d)
                    else
                      (case updateBooking_by d bookingId
                              \<lparr> set_status = Some ''paid'',
                                set_razorpayOrderId = None,
                                set_razorpayPaymentId = Some pid \<rparr> now of
                         Inl e \<Rightarrow> (Inl e, d)
                       | Inr (booking, d1) \<Rightarrow>
                           (case updateEquipment d1 (b_equipmentId booking) False of
                              Inl e \<Rightarrow> (Inl e, d1)
                            | Inr (_, d2) \<Rightarrow>
                                (case generateReceipt_by d2 fetched pdf bookingId pid now of
                                   Inl e \<Rightarrow> (Inl e, d2)
                                 | Inr (_, d3) \<Rightarrow> (Inr (), d3)))))
           | Inr (Some (Failed bookingId)) \<Rightarrow>
               (case updateBooking_by d bookingId
                       \<lparr> set_status = Some ''payment_failed'',
                         set_razorpayOrderId = None,
                         set_razorpayPaymentId = None \<rparr> now of
                  Inl e \<Rightarrow> (Inl e, d)
                | Inr (booking, d1) \<Rightarrow>
                    (case updateEquipment d1 (b_equipmentId booking) True of
                       Inl e \<Rightarrow> (Inl e, d1)
                     | Inr (_, d2) \<Rightarrow> (Inr (), d2)))))"

text \<open>
  The signature check runs only when a webhook secret is configured (a non-empty
  environment variable); its result is the rejection to send, if any.
\<close>

definition check_webhook_signature ::
    "(string \<Rightarrow> string \<Rightarrow> string) \<Rightarrow> env \<Rightarrow> webhook_request \<Rightarrow> response option" where
  "check_webhook_signature H ev req =
     (case RAZORPAY_WEBHOOK_SECRET ev of
        None \<Rightarrow> None
      | Some webhookSecret \<Rightarrow>
          if webhookSecret = [] then None
          else
            (case wh_signature req of
               None \<Rightarrow> Some (ErrorJson 400 ''Missing signature'' None)
             | Some signature \<Rightarrow>
                 if signature = [] then Some (ErrorJson 400 ''Missing signature'' None)
                 else if signature \<noteq> H webhookSecret (wh_body req)
                 then Some (ErrorJson 400 ''Invalid signature'' None)
                 else None))"

definition post_webhook ::
    "(string \<Rightarrow> string \<Rightarrow> string) \<Rightarrow> env \<Rightarrow> razorpay_payment option \<Rightarrow> string \<Rightarrow> int
      \<Rightarrow> webhook_request \<Rightarrow> db \<Rightarrow> response \<times> db" where
  "post_webhook H ev fetched pdf now req d =
     (case check_webhook_signature H ev req of
        Some rejection \<Rightarrow> (rejection, d)
      | None \<Rightarrow>
          (case process_webhook fetched pdf now req d of
             (Inl err, d1) \<Rightarrow> (WebhookError err, d1)
           | (Inr _, d1) \<Rightarrow> (Received, d1)))"

section \<open>Sequences of operations\<close>

text \<open>
  The three state-changing operations of the booking lifecycle, each with the answers
  of the outside world it consumes, and the database after a sequence of them.
\<close>

datatype operation =
    Create_booking order_result int "int option" booking_body
  | Verify_payment int verify_body
  | Webhook "razorpay_payment option" string int webhook_request

fun step :: "(string \<Rightarrow> string \<Rightarrow> string) \<Rightarrow> env \<Rightarrow> operation \<Rightarrow> db \<Rightarrow> db" where
  "step H ev (Create_booking gw now user body) d = snd (post_bookings ev gw now user body d)"
| "step H ev (Verify_payment now body) d = snd (post_verify_payment H ev now body d)"
| "step H ev (Webhook fetched pdf now req) d = snd (post_webhook H ev fetched pdf now req d)"

fun run :: "(string \<Rightarrow> string \<Rightarrow> string) \<Rightarrow> env \<Rightarrow> operation list \<Rightarrow> db \<Rightarrow> db" where
  "run H ev [] d = d"
| "run H ev (x # xs) d = run H ev xs (step H ev x d)"

section \<open>The predicates of the specification\<close>

text \<open>
  A booking holds its equipment while its status is \<open>paid\<close> or \<open>awaiting_payment\<close>.
  Two date ranges overlap, at day granularity and with both ends included, when each
  starts no later than the other ends.
\<close>

definition holds_equipment :: "booking \<Rightarrow> bool" where
  "holds_equipment b = (b_status b = ''paid'' \<or> b_status b = ''awaiting_payment'')"

definition day_of :: "int \<Rightarrow> int" where
  "day_of t = t div ms_per_day"

definition ranges_overlap :: "int \<Rightarrow> int \<Rightarrow> int \<Rightarrow> int \<Rightarrow> bool" where
  "ranges_overlap a1 a2 b1 b2 = (day_of a1 \<le> day_of b2 \<and> day_of b1 \<le> day_of a2)"



text \<open>
  Primary keys: the booking ids are distinct and below the counter that numbers the next
  row.
\<close>

definition keys_ok :: "db \<Rightarrow> bool" where
  "keys_ok d = (distinct (map b_id (bookings d)) \<and> list_all (\<lambda>b. b_id b < bookings_id_seq d) (bookings d))"




section \<open>Example data\<close>

text \<open>
  One tractor at 500 a day, one renter, and requests for 1 to 3 June 2024 (UTC). \<open>H0\<close>
  is a stand-in for the keyed hash, enough to tell a matching signature from another.
\<close>

definition H0 :: "string \<Rightarrow> string \<Rightarrow> string" where
  "H0 key message = key @ '':'' @ message"

definition ev0 :: env where
  "ev0 = \<lparr> RAZORPAY_KEY_ID = ''rzp_test_key'',
           RAZORPAY_KEY_SECRET = ''secret'',
           RAZORPAY_WEBHOOK_SECRET = Some ''whsec'' \<rparr>"

definition tractor :: equipment where
  "tractor = \<lparr> e_id = 1, e_ownerId = 10, e_name = ''Tractor'', e_dailyRate = 500,
               e_availability = True \<rparr>"

definition db0 :: db where
  "db0 = \<lparr> users = [7], equipmentTable = [tractor], bookings = [], receipts = [],
           bookings_id_seq = 1, receipts_id_seq = 1 \<rparr>"

definition june_1 :: int where
  "june_1 = 1717200000000"

definition june_3 :: int where
  "june_3 = 1717372800000"

definition june_10 :: int where
  "june_10 = 1718000000000"

definition may_30 :: int where
  "may_30 = 1717027200000"

definition body_june :: booking_body where
  "body_june = \<lparr> rq_equipmentId = Some 1, rq_startDate = Some june_1, rq_endDate = Some june_3,
                 rq_razorpayOrderId = None, rq_razorpayPaymentId = None \<rparr>"

text \<open>A request whose end date precedes its start date, both of them in the past on 10 June.\<close>

definition body_backwards :: booking_body where
  "body_backwards = \<lparr> rq_equipmentId = Some 1, rq_startDate = Some june_3, rq_endDate = Some june_1,
                      rq_razorpayOrderId = None, rq_razorpayPaymentId = None \<rparr>"

definition body_no_dates :: booking_body where
  "body_no_dates = \<lparr> rq_equipmentId = Some 1, rq_startDate = None, rq_endDate = None,
                     rq_razorpayOrderId = None, rq_razorpayPaymentId = None \<rparr>"


definition verify_body_tampered :: verify_body where
  "verify_body_tampered =
     \<lparr> vb_bookingId = Some 1,
       vb_razorpay_order_id = Some ''order_1'',
       vb_razorpay_payment_id = Some ''pay_1'',
       vb_razorpay_signature = Some ''forged'' \<rparr>"

text \<open>The database after booking 1 was created and then paid through verification.\<close>

definition db_awaiting :: db where
  "db_awaiting = run H0 ev0 [Create_booking (Order (Some ''order_1'')) may_30 (Some 7) body_june] db0"










section \<open>Auxiliary facts\<close>

subsection \<open>Rows and lookups\<close>

lemma b_id_apply_patch [simp]: "b_id (apply_patch p now b) = b_id b"
  by (simp add: apply_patch_def)

lemma apply_patch_keeps [simp]:
  "b_equipmentId (apply_patch p now b) = b_equipmentId b"
  "b_startDate (apply_patch p now b) = b_startDate b"
  "b_endDate (apply_patch p now b) = b_endDate b"
  "b_totalPrice (apply_patch p now b) = b_totalPrice b"
  "b_userId (apply_patch p now b) = b_userId b"
  by (simp_all add: apply_patch_def)

lemma b_status_apply_patch [simp]:
  "b_status (apply_patch p now b) = (case set_status p of None \<Rightarrow> b_status b | Some s \<Rightarrow> s)"
  by (simp add: apply_patch_def)

lemma find_patched_rows:
  "find (\<lambda>b. b_id b = j) (patched_rows i p now rows) =
     (if j = i then map_option (apply_patch p now) (find (\<lambda>b. b_id b = i) rows)
      else find (\<lambda>b. b_id b = j) rows)"
  by (induction rows) (auto simp: patched_rows_def)

lemma updateBooking_found:
  "getBooking d i = Some b \<Longrightarrow>
     updateBooking d i p now = Inr (apply_patch p now b, d\<lparr>bookings := patched_rows i p now (bookings d)\<rparr>)"
  by (simp add: updateBooking_def getBooking_def find_patched_rows)


lemma find_set_availability:
  "find (\<lambda>e. e_id e = j) (set_availability i v rows) =
     (if j = i then map_option (\<lambda>e. e\<lparr>e_availability := v\<rparr>) (find (\<lambda>e. e_id e = i) rows)
      else find (\<lambda>e. e_id e = j) rows)"
  by (induction rows) (auto simp: set_availability_def)

lemma updateEquipment_found:
  "getEquipment d i = Some e \<Longrightarrow>
     updateEquipment d i v =
       Inr (e\<lparr>e_availability := v\<rparr>, d\<lparr>equipmentTable := set_availability i v (equipmentTable d)\<rparr>)"
  by (simp add: updateEquipment_def getEquipment_def find_set_availability)


lemma getEquipment_set_availability:
  "getEquipment (d\<lparr>equipmentTable := set_availability i v (equipmentTable d)\<rparr>) j =
     (if j = i then map_option (\<lambda>e. e\<lparr>e_availability := v\<rparr>) (getEquipment d i)
      else getEquipment d j)"
  by (simp add: getEquipment_def find_set_availability)

lemma getBooking_patched_rows:
  "getBooking (d\<lparr>bookings := patched_rows i p now (bookings d)\<rparr>) j =
     (if j = i then map_option (apply_patch p now) (getBooking d i) else getBooking d j)"
  by (simp add: getBooking_def find_patched_rows)

lemma getEquipment_id: "getEquipment d i = Some e \<Longrightarrow> e_id e = i"
  by (auto simp: getEquipment_def find_Some_iff)


lemma getBooking_mem: "getBooking d i = Some b \<Longrightarrow> b \<in> set (bookings d)"
  by (auto simp: getBooking_def find_Some_iff)

lemma patched_rows_other:
  "\<forall>b \<in> set rows. b_id b \<noteq> i \<Longrightarrow> patched_rows i p now rows = rows"
  by (induction rows) (auto simp: patched_rows_def)

lemma patched_rows_append:
  "patched_rows i p now (xs @ ys) = patched_rows i p now xs @ patched_rows i p now ys"
  by (simp add: patched_rows_def)

lemma patched_rows_single:
  "patched_rows i p now [b] = (if b_id b = i then [apply_patch p now b] else [b])"
  by (simp add: patched_rows_def)

lemma keys_ok_fresh: "keys_ok d \<Longrightarrow> \<forall>b \<in> set (bookings d). b_id b \<noteq> bookings_id_seq d"
  by (auto simp: keys_ok_def list_all_iff)

lemma ceil_div_ceiling: "of_int (ceil_div x y) = \<lceil>real_of_int x / real_of_int y\<rceil>"
  by (simp add: ceil_div_def ceiling_divide_eq_div)

lemma totalDays_ceiling:
  "totalDays s e = max 1 (\<lceil>real_of_int (e - s) / (1000 * 3600 * 24)\<rceil> + 1)"
  using ceil_div_ceiling [of "e - s" "1000 * 3600 * 24"] by (simp add: totalDays_def)

lemma find_append_row:
  "find P (xs @ ys) = (case find P xs of None \<Rightarrow> find P ys | Some x \<Rightarrow> Some x)"
  by (induction xs) auto

lemma getBooking_new_row:
  assumes "\<forall>b \<in> set (bookings d). b_id b \<noteq> b_id b0"
  shows "getBooking (d\<lparr>bookings := bookings d @ [b0]\<rparr>) (b_id b0) = Some b0"
proof -
  have "find (\<lambda>b. b_id b = b_id b0) (bookings d) = None"
    using assms by (auto simp: find_None_iff)
  then show ?thesis by (simp add: getBooking_def find_append_row)
qed

subsection \<open>Days\<close>

lemma floor_multiple_le_iff:
  fixes m :: int
  assumes m: "0 < m"
  shows "(s - s mod m \<le> x) = (s div m \<le> x div m)"
proof
  assume "s - s mod m \<le> x"
  then have "(s div m) * m \<le> x" by (simp add: minus_mod_eq_div_mult)
  then have "((s div m) * m) div m \<le> x div m" using m by (rule zdiv_mono1)
  then show "s div m \<le> x div m" using m by simp
next
  assume "s div m \<le> x div m"
  then have "(s div m) * m \<le> (x div m) * m" using m by simp
  also have "\<dots> \<le> x" using m by (simp add: minus_mod_eq_div_mult [symmetric])
  finally show "s - s mod m \<le> x" by (simp add: minus_mod_eq_div_mult)
qed

lemma le_last_of_multiple_iff:
  fixes m :: int
  assumes m: "0 < m"
  shows "(x \<le> e - e mod m + (m - 1)) = (x div m \<le> e div m)"
proof -
  have "(x \<le> e - e mod m + (m - 1)) = (x < (e div m + 1) * m)"
    by (simp add: minus_mod_eq_div_mult algebra_simps) linarith
  also have "\<dots> = (\<not> ((e div m + 1) * m - ((e div m + 1) * m) mod m \<le> x))"
    by auto
  also have "\<dots> = (\<not> (((e div m + 1) * m) div m \<le> x div m))"
    using m by (simp only: floor_multiple_le_iff [OF m])
  also have "\<dots> = (x div m \<le> e div m)" using m by auto
  finally show ?thesis .
qed

lemma start_of_day_le_iff: "(start_of_day s \<le> x) = (day_of s \<le> day_of x)"
  unfolding start_of_day_def day_of_def
  by (rule floor_multiple_le_iff) (simp add: ms_per_day_def)

lemma le_end_of_day_iff: "(x \<le> end_of_day e) = (day_of x \<le> day_of e)"
  unfolding end_of_day_def day_of_def
  by (rule le_last_of_multiple_iff) (simp add: ms_per_day_def)

lemma start_of_day_le_self: "start_of_day s \<le> s"
  by (simp add: start_of_day_le_iff)

lemma self_le_end_of_day: "e \<le> end_of_day e"
  by (simp add: le_end_of_day_iff)

lemma le_start_of_day_imp: "x \<le> start_of_day s \<Longrightarrow> day_of x \<le> day_of s"
proof -
  assume "x \<le> start_of_day s"
  then have "x \<le> end_of_day s"
    using start_of_day_le_self [of s] self_le_end_of_day [of s] by linarith
  then show ?thesis by (simp add: le_end_of_day_iff)
qed

lemma end_of_day_le_imp: "end_of_day e \<le> x \<Longrightarrow> day_of e \<le> day_of x"
proof -
  assume "end_of_day e \<le> x"
  then have "start_of_day e \<le> x"
    using start_of_day_le_self [of e] self_le_end_of_day [of e] by linarith
  then show ?thesis by (simp add: start_of_day_le_iff)
qed

lemma overlap_imp_in_date_range:
  assumes "ranges_overlap (b_startDate b) (b_endDate b) s e"
  shows "in_date_range (start_of_day s) (end_of_day e) b"
proof -
  from assms have a: "day_of (b_startDate b) \<le> day_of e" and c: "day_of s \<le> day_of (b_endDate b)"
    by (simp_all add: ranges_overlap_def)
  show ?thesis
  proof (cases "day_of s \<le> day_of (b_startDate b)")
    case True
    with a show ?thesis by (simp add: in_date_range_def start_of_day_le_iff le_end_of_day_iff)
  next
    case s: False
    show ?thesis
    proof (cases "day_of (b_endDate b) \<le> day_of e")
      case True
      with c show ?thesis by (simp add: in_date_range_def start_of_day_le_iff le_end_of_day_iff)
    next
      case False
      then have "end_of_day e \<le> b_endDate b"
        using le_end_of_day_iff [of "b_endDate b" e] by linarith
      moreover from s have "b_startDate b \<le> start_of_day s"
        using start_of_day_le_iff [of s "b_startDate b"] by linarith
      ultimately show ?thesis by (simp add: in_date_range_def)
    qed
  qed
qed

lemma in_date_range_imp_overlap:
  assumes r: "in_date_range (start_of_day s) (end_of_day e) b"
    and b: "day_of (b_startDate b) \<le> day_of (b_endDate b)"
    and q: "day_of s \<le> day_of e"
  shows "ranges_overlap (b_startDate b) (b_endDate b) s e"
  using r b q le_start_of_day_imp [of "b_startDate b" s] end_of_day_le_imp [of e "b_endDate b"]
  unfolding in_date_range_def ranges_overlap_def start_of_day_le_iff le_end_of_day_iff
  by auto

lemma checkEquipmentAvailability_iff:
  "checkEquipmentAvailability d eid (Some s) (Some e) =
     ((\<exists>equipment. getEquipment d eid = Some equipment \<and> e_availability equipment)
      \<and> \<not> (\<exists>b \<in> set (bookings d).
              b_equipmentId b = eid \<and> holds_equipment b
              \<and> in_date_range (start_of_day s) (end_of_day e) b))"
  by (auto simp: checkEquipmentAvailability_def getBookingsByDateRange_def holds_equipment_def
        list_ex_iff Let_def split: option.splits)

subsection \<open>Booking creation\<close>

text \<open>The two halves of the handler's inner \<open>try\<close>/\<open>catch\<close>, when the rows they touch exist.\<close>

lemma lock_and_order_result:
  assumes eq: "getEquipment d (pb_equipmentId parsed) = Some eq0"
    and bk: "getBooking d (b_id booking) = Some booking"
  shows "lock_and_order ev gw now parsed equipment booking amount d =
     (let d1 = d\<lparr>equipmentTable := set_availability (pb_equipmentId parsed) False (equipmentTable d)\<rparr>
      in case createPaymentSession ev gw (b_id booking) (amount * 100) (e_name equipment) of
           Inl err \<Rightarrow> (Inl err, d1)
         | Inr order \<Rightarrow>
             (let p = \<lparr> set_status = Some ''awaiting_payment'',
                        set_razorpayOrderId = Some (pc_id order),
                        set_razorpayPaymentId = None \<rparr>
              in (Inr (Created (apply_patch p now booking) order),
                  d1\<lparr>bookings := patched_rows (b_id booking) p now (bookings d)\<rparr>)))"
proof -
  let ?d1 = "d\<lparr>equipmentTable := set_availability (pb_equipmentId parsed) False (equipmentTable d)\<rparr>"
  have bk1: "getBooking ?d1 (b_id booking) = Some booking"
    using bk by (simp add: getBooking_def)
  show ?thesis
    by (simp add: lock_and_order_def updateEquipment_found [OF eq] updateBooking_found [OF bk1]
        Let_def split: sum.split)
qed

lemma revert_lock_result:
  assumes eq: "getEquipment d (pb_equipmentId parsed) = Some eq0"
    and bk: "getBooking d (b_id booking) = Some booking"
  shows "revert_lock err now parsed booking d =
     (let p = \<lparr> set_status = Some ''payment_failed'', set_razorpayOrderId = None,
                set_razorpayPaymentId = None \<rparr>
      in (ErrorJson 400 ''Payment order creation failed'' (Some err),
          d\<lparr>equipmentTable := set_availability (pb_equipmentId parsed) True (equipmentTable d),
            bookings := patched_rows (b_id booking) p now (bookings d)\<rparr>))"
proof -
  let ?d1 = "d\<lparr>equipmentTable := set_availability (pb_equipmentId parsed) True (equipmentTable d)\<rparr>"
  have bk1: "getBooking ?d1 (b_id booking) = Some booking"
    using bk by (simp add: getBooking_def)
  show ?thesis
    by (simp add: revert_lock_def updateEquipment_found [OF eq] updateBooking_found [OF bk1] Let_def)
qed

text \<open>What \<open>post_bookings\<close> does once the request has passed every check.\<close>

lemma post_bookings_accepted:
  assumes k: "keys_ok d"
    and body: "rq_equipmentId body = Some eid" "rq_startDate body = Some s" "rq_endDate body = Some e"
    and eq: "getEquipment d eid = Some equipment"
    and av: "checkEquipmentAvailability d eid (Some s) (Some e)"
  shows "post_bookings ev gw now (Some uid) body d =
     (let b0 = \<lparr> b_id = bookings_id_seq d, b_equipmentId = eid, b_userId = uid,
                 b_startDate = s, b_endDate = e,
                 b_totalPrice = e_dailyRate equipment * totalDays s e,
                 b_status = ''pending'',
                 b_razorpayOrderId = rq_razorpayOrderId body,
                 b_razorpayPaymentId = rq_razorpayPaymentId body,
                 b_isRated = False, b_createdAt = now, b_lastStatusUpdate = now \<rparr>
      in case createPaymentSession ev gw (bookings_id_seq d)
                (e_dailyRate equipment * totalDays s e * 100) (e_name equipment) of
           Inr order \<Rightarrow>
             (let b1 = b0\<lparr> b_status := ''awaiting_payment'', b_razorpayOrderId := Some (pc_id order) \<rparr>
              in (Created b1 order,
                  d\<lparr> equipmentTable := set_availability eid False (equipmentTable d),
                     bookings := bookings d @ [b1],
                     bookings_id_seq := bookings_id_seq d + 1 \<rparr>))
         | Inl err \<Rightarrow>
             (ErrorJson 400 ''Payment order creation failed'' (Some err),
              d\<lparr> equipmentTable :=
                   set_availability eid True (set_availability eid False (equipmentTable d)),
                 bookings := bookings d @ [b0\<lparr> b_status := ''payment_failed'' \<rparr>],
                 bookings_id_seq := bookings_id_seq d + 1 \<rparr>))"
proof -
  define b0 where "b0 = \<lparr> b_id = bookings_id_seq d, b_equipmentId = eid, b_userId = uid,
                 b_startDate = s, b_endDate = e,
                 b_totalPrice = e_dailyRate equipment * totalDays s e,
                 b_status = ''pending'',
                 b_razorpayOrderId = rq_razorpayOrderId body,
                 b_razorpayPaymentId = rq_razorpayPaymentId body,
                 b_isRated = False, b_createdAt = now, b_lastStatusUpdate = now \<rparr>"
  define parsed where "parsed = \<lparr> pb_equipmentId = eid, pb_userId = uid, pb_startDate = s,
      pb_endDate = e, pb_razorpayOrderId = rq_razorpayOrderId body,
      pb_razorpayPaymentId = rq_razorpayPaymentId body \<rparr>"
  define d1 where "d1 = d\<lparr>bookings := bookings d @ [b0], bookings_id_seq := bookings_id_seq d + 1\<rparr>"
  define d2 where "d2 = d1\<lparr>equipmentTable := set_availability eid False (equipmentTable d1)\<rparr>"
  have id0: "b_id b0 = bookings_id_seq d" by (simp add: b0_def)
  have pe: "pb_equipmentId parsed = eid" by (simp add: parsed_def)
  have pf: "pb_userId parsed = uid" "pb_startDate parsed = s" "pb_endDate parsed = e"
      "pb_razorpayOrderId parsed = rq_razorpayOrderId body"
      "pb_razorpayPaymentId parsed = rq_razorpayPaymentId body"
    by (simp_all add: parsed_def)
  have avail: "e_availability equipment"
    using av eq by (simp add: checkEquipmentAvailability_def split: if_splits)
  have fresh: "\<forall>b \<in> set (bookings d). b_id b \<noteq> b_id b0"
    using keys_ok_fresh [OF k] by (simp add: id0)
  have parse: "insertBookingSchema body uid = Some parsed"
    by (simp add: insertBookingSchema_def body parsed_def)
  have create: "createBooking d \<lparr> ib_equipmentId = eid, ib_userId = uid, ib_startDate = s,
        ib_endDate = e, ib_totalPrice = e_dailyRate equipment * totalDays s e,
        ib_status = ''pending'', ib_razorpayOrderId = rq_razorpayOrderId body,
        ib_razorpayPaymentId = rq_razorpayPaymentId body \<rparr> now = (b0, d1)"
    by (simp add: createBooking_def b0_def d1_def Let_def)
  have eq1: "getEquipment d1 (pb_equipmentId parsed) = Some equipment"
    using eq by (simp add: getEquipment_def d1_def pe)
  have bk1: "getBooking d1 (b_id b0) = Some b0"
    using getBooking_new_row [OF fresh] by (simp add: d1_def getBooking_def)
  have eq2: "getEquipment d2 (pb_equipmentId parsed) = Some (equipment\<lparr>e_availability := False\<rparr>)"
    using eq1 by (simp add: d2_def getEquipment_set_availability pe)
  have bk2: "getBooking d2 (b_id b0) = Some b0"
    using bk1 by (simp add: d2_def getBooking_def)
  have rows: "patched_rows (b_id b0) p now (bookings d1) = bookings d @ [apply_patch p now b0]" for p
    by (simp add: d1_def patched_rows_append patched_rows_other [OF fresh] patched_rows_single)
  have lock: "lock_and_order ev gw now parsed equipment b0 (e_dailyRate equipment * totalDays s e) d1 =
     (case createPaymentSession ev gw (b_id b0) (e_dailyRate equipment * totalDays s e * 100) (e_name equipment) of
           Inl err \<Rightarrow> (Inl err, d2)
         | Inr order \<Rightarrow>
             (Inr (Created (apply_patch \<lparr> set_status = Some ''awaiting_payment'',
                        set_razorpayOrderId = Some (pc_id order),
                        set_razorpayPaymentId = None \<rparr> now b0) order),
                  d2\<lparr>bookings := bookings d @ [apply_patch \<lparr> set_status = Some ''awaiting_payment'',
                        set_razorpayOrderId = Some (pc_id order),
                        set_razorpayPaymentId = None \<rparr> now b0]\<rparr>))"
    by (simp add: lock_and_order_result [OF eq1 bk1] rows d2_def pe Let_def split: sum.split)
  have revert: "revert_lock err now parsed b0 d2 =
      (ErrorJson 400 ''Payment order creation failed'' (Some err),
          d2\<lparr>equipmentTable := set_availability eid True (equipmentTable d2),
            bookings := bookings d @ [apply_patch \<lparr> set_status = Some ''payment_failed'', set_razorpayOrderId = None,
                set_razorpayPaymentId = None \<rparr> now b0]\<rparr>)" for err
  proof -
    have "bookings d2 = bookings d1" by (simp add: d2_def)
    then show ?thesis by (simp add: revert_lock_result [OF eq2 bk2] pe Let_def rows)
  qed
  have "post_bookings ev gw now (Some uid) body d =
      (case lock_and_order ev gw now parsed equipment b0 (e_dailyRate equipment * totalDays s e) d1 of
         (Inr res, d2) \<Rightarrow> (res, d2)
       | (Inl paymentError, d2) \<Rightarrow> revert_lock paymentError now parsed b0 d2)"
    using avail av
    by (simp add: post_bookings_def parse eq pe pf create Let_def)
  then show ?thesis
    unfolding lock
    by (simp add: revert Let_def id0 split: sum.split)
       (simp add: b0_def d1_def d2_def apply_patch_def)
qed

lemma post_bookings_cases:
  assumes "post_bookings ev gw now user body d = (res, d')"
  shows "d' = d \<or>
     (\<exists>uid eid s e equipment.
        user = Some uid \<and> rq_equipmentId body = Some eid \<and> rq_startDate body = Some s
        \<and> rq_endDate body = Some e \<and> getEquipment d eid = Some equipment
        \<and> checkEquipmentAvailability d eid (Some s) (Some e))"
proof (cases "\<exists>uid eid s e equipment.
        user = Some uid \<and> rq_equipmentId body = Some eid \<and> rq_startDate body = Some s
        \<and> rq_endDate body = Some e \<and> getEquipment d eid = Some equipment
        \<and> checkEquipmentAvailability d eid (Some s) (Some e)")
  case True
  then show ?thesis by blast
next
  case False
  then have "post_bookings ev gw now user body d = (fst (post_bookings ev gw now user body d), d)"
    by (auto simp: post_bookings_def insertBookingSchema_def Let_def split: option.splits)
  with assms show ?thesis by simp
qed

lemma lock_and_order_Inr:
  "lock_and_order ev gw now parsed equipment booking amount d = (Inr res, d') \<Longrightarrow> \<exists>b c. res = Created b c"
  by (auto simp: lock_and_order_def split: sum.splits prod.splits)

lemma revert_lock_response:
  "fst (revert_lock err now parsed booking d) \<noteq> ErrorJson 400 ''Invalid booking data'' None"
  by (auto simp: revert_lock_def split: sum.splits prod.splits)

subsection \<open>Settlement\<close>

lemma lookups_ignore_receipts [simp]:
  "getBooking (d\<lparr>receipts := rs, receipts_id_seq := n\<rparr>) i = getBooking d i"
  "getEquipment (d\<lparr>receipts := rs, receipts_id_seq := n\<rparr>) i = getEquipment d i"
  by (simp_all add: getBooking_def getEquipment_def)

lemma getEquipment_bookings_update [simp]:
  "getEquipment (d\<lparr>bookings := rows\<rparr>) i = getEquipment d i"
  by (simp add: getEquipment_def)

lemma getBooking_equipment_update [simp]:
  "getBooking (d\<lparr>equipmentTable := rows\<rparr>) i = getBooking d i"
  by (simp add: getBooking_def)

lemma getUser_updates [simp]:
  "getUser (d\<lparr>bookings := rows\<rparr>) i = getUser d i"
  "getUser (d\<lparr>equipmentTable := erows\<rparr>) i = getUser d i"
  by (simp_all add: getUser_def)








subsection \<open>Keeping bookings apart\<close>










lemma keys_ok_same:
  "keys_ok d \<Longrightarrow> bookings d' = bookings d \<Longrightarrow> bookings_id_seq d' = bookings_id_seq d \<Longrightarrow> keys_ok d'"
  by (simp add: keys_ok_def)



subsection \<open>What each operation leaves in the bookings table\<close>














section \<open>C1: no double booking\<close>




section \<open>C2: verifying a payment twice\<close>




section \<open>C3: a failed payment reported for a paid booking\<close>




section \<open>C4: the availability check\<close>

text \<open>
  Claim C4 as stated fails on dates that are not valid: \<open>getBookingsByDateRange\<close> then
  returns no booking at all, so the check answers \<open>true\<close> for equipment that is there and
  available. On the example database no date is given and the tractor is reported free.
\<close>

theorem availability_check_invalid_date_counterexample:
  "getEquipment db0 1 = Some tractor \<and> e_availability tractor
   \<and> checkEquipmentAvailability db0 1 None None"
  by code_simp

text \<open>
  Claim C4, amended. For valid dates with the start day not after the end day, and when
  the stored bookings that hold this equipment have their start day not after their end
  day, the check is true exactly when the equipment exists with \<open>availability = true\<close> and
  none of those bookings overlaps the range, days compared with both ends included. When
  one of the dates is invalid, no booking is looked at and the check is true exactly
  when the equipment exists with \<open>availability = true\<close>. For equipment that does not exist
  it is false.
\<close>

theorem availability_check_spec:
  "(day_of s \<le> day_of e
      \<and> (\<forall>b \<in> set (bookings d).
            b_equipmentId b = eid \<and> holds_equipment b
            \<longrightarrow> day_of (b_startDate b) \<le> day_of (b_endDate b))
    \<longrightarrow> checkEquipmentAvailability d eid (Some s) (Some e) =
          ((\<exists>equipment. getEquipment d eid = Some equipment \<and> e_availability equipment)
           \<and> \<not> (\<exists>b \<in> set (bookings d).
                   b_equipmentId b = eid \<and> holds_equipment b
                   \<and> ranges_overlap (b_startDate b) (b_endDate b) s e)))
   \<and> (startDate = None \<or> endDate = None
        \<longrightarrow> checkEquipmentAvailability d eid startDate endDate =
              (\<exists>equipment. getEquipment d eid = Some equipment \<and> e_availability equipment))
   \<and> (getEquipment d eid = None \<longrightarrow> \<not> checkEquipmentAvailability d eid startDate endDate)"
proof (intro conjI impI)
  assume a: "day_of s \<le> day_of e
      \<and> (\<forall>b \<in> set (bookings d).
            b_equipmentId b = eid \<and> holds_equipment b
            \<longrightarrow> day_of (b_startDate b) \<le> day_of (b_endDate b))"
  have "(in_date_range (start_of_day s) (end_of_day e) b)
        = ranges_overlap (b_startDate b) (b_endDate b) s e"
    if "b \<in> set (bookings d)" "b_equipmentId b = eid" "holds_equipment b" for b
    using that a in_date_range_imp_overlap [of s e b] overlap_imp_in_date_range [of b s e]
    by blast
  then show "checkEquipmentAvailability d eid (Some s) (Some e) =
          ((\<exists>equipment. getEquipment d eid = Some equipment \<and> e_availability equipment)
           \<and> \<not> (\<exists>b \<in> set (bookings d).
                   b_equipmentId b = eid \<and> holds_equipment b
                   \<and> ranges_overlap (b_startDate b) (b_endDate b) s e))"
    unfolding checkEquipmentAvailability_iff by blast
next
  assume "startDate = None \<or> endDate = None"
  then show "checkEquipmentAvailability d eid startDate endDate =
              (\<exists>equipment. getEquipment d eid = Some equipment \<and> e_availability equipment)"
    by (auto simp: checkEquipmentAvailability_def getBookingsByDateRange_def Let_def
          split: option.splits)
next
  assume "getEquipment d eid = None"
  then show "\<not> checkEquipmentAvailability d eid startDate endDate"
    by (simp add: checkEquipmentAvailability_def)
qed

text \<open>
  The three parts of the theorem on the example: the tractor is taken for 1 to 3 June
  once booking 1 awaits payment; with an invalid end date it is reported free; equipment
  2 does not exist.
\<close>

theorem availability_check_spec_witness:
  "day_of june_1 \<le> day_of june_3
   \<and> map (\<lambda>b. (b_equipmentId b, b_status b, day_of (b_startDate b) \<le> day_of (b_endDate b)))
        (bookings db_awaiting) = [(1, ''awaiting_payment'', True)]
   \<and> \<not> checkEquipmentAvailability db_awaiting 1 (Some june_1) (Some june_3)
   \<and> checkEquipmentAvailability db0 1 (Some june_1) None
   \<and> getEquipment db0 2 = None
   \<and> \<not> checkEquipmentAvailability db0 2 (Some june_1) (Some june_3)"
proof -
  have q: "day_of june_1 \<le> day_of june_3" by code_simp
  have rows: "map (\<lambda>b. (b_equipmentId b, b_status b, day_of (b_startDate b) \<le> day_of (b_endDate b)))
        (bookings db_awaiting) = [(1, ''awaiting_payment'', True)]" by code_simp
  then have ord: "\<forall>b \<in> set (bookings db_awaiting).
            b_equipmentId b = 1 \<and> holds_equipment b
            \<longrightarrow> day_of (b_startDate b) \<le> day_of (b_endDate b)"
    by (cases "bookings db_awaiting") auto
  have no2: "getEquipment db0 2 = None" by code_simp
  have av0: "\<exists>equipment. getEquipment db0 1 = Some equipment \<and> e_availability equipment"
    by (simp add: getEquipment_def db0_def tractor_def)
  have busy: "\<exists>b \<in> set (bookings db_awaiting).
                   b_equipmentId b = 1 \<and> holds_equipment b
                   \<and> ranges_overlap (b_startDate b) (b_endDate b) june_1 june_3"
    unfolding list_ex_iff [symmetric] by code_simp
  note spec = availability_check_spec
  from spec [of june_1 june_3 db_awaiting 1, THEN conjunct1] q ord busy
  have a: "\<not> checkEquipmentAvailability db_awaiting 1 (Some june_1) (Some june_3)" by blast
  from spec [of june_1 june_3 db0 1 "Some june_1" None, THEN conjunct2, THEN conjunct1] av0
  have b: "checkEquipmentAvailability db0 1 (Some june_1) None" by blast
  from spec [of june_1 june_3 db0 2 "Some june_1" "Some june_3", THEN conjunct2, THEN conjunct2] no2
  have c: "\<not> checkEquipmentAvailability db0 2 (Some june_1) (Some june_3)" by blast
  from q rows a b no2 c show ?thesis by blast
qed

section \<open>C5: the price of a booking\<close>

text \<open>
  Claim C5. Every booking row that \<open>POST /api/bookings\<close> creates carries
  \<open>totalPrice = dailyRate * totalDays\<close>, where \<open>totalDays\<close> is the ceiling of the time
  between the two dates in days, plus one, and at least one; the booking in a \<open>201\<close>
  response is that row. For the tractor at 500 a day and 1 to 3 June 2024 this gives
  3 days and a price of 1500.
\<close>

theorem booking_total_price:
  "(keys_ok d \<and> post_bookings ev gw now user body d = (res, d') \<and> bookings d' \<noteq> bookings d \<longrightarrow>
      (\<exists>equipment s e b.
          rq_equipmentId body = Some (e_id equipment)
          \<and> getEquipment d (e_id equipment) = Some equipment
          \<and> rq_startDate body = Some s \<and> rq_endDate body = Some e
          \<and> bookings d' = bookings d @ [b]
          \<and> b_totalPrice b = e_dailyRate equipment * totalDays s e
          \<and> totalDays s e = max 1 (\<lceil>real_of_int (e - s) / (1000 * 3600 * 24)\<rceil> + 1)
          \<and> (\<forall>b' c. res = Created b' c \<longrightarrow> b' = b)))
   \<and> e_dailyRate tractor = 500
   \<and> max 1 (\<lceil>real_of_int (june_3 - june_1) / (1000 * 3600 * 24)\<rceil> + 1) = (3::int)
   \<and> map b_totalPrice
        (bookings (snd (post_bookings ev0 (Order (Some ''order_1'')) may_30 (Some 7) body_june db0)))
       = [1500]"
proof (intro conjI impI)
  assume a: "keys_ok d \<and> post_bookings ev gw now user body d = (res, d') \<and> bookings d' \<noteq> bookings d"
  then have k: "keys_ok d" and run: "post_bookings ev gw now user body d = (res, d')"
    and ch: "bookings d' \<noteq> bookings d" by simp_all
  from post_bookings_cases [OF run] ch obtain uid eid s e equipment where
    u: "user = Some uid" and b: "rq_equipmentId body = Some eid" "rq_startDate body = Some s"
      "rq_endDate body = Some e" and eq: "getEquipment d eid = Some equipment"
    and av: "checkEquipmentAvailability d eid (Some s) (Some e)"
    by auto
  have eid: "e_id equipment = eid" using eq by (rule getEquipment_id)
  note acc = post_bookings_accepted [OF k b eq av, of ev gw now uid]
  show "\<exists>equipment s e b.
          rq_equipmentId body = Some (e_id equipment)
          \<and> getEquipment d (e_id equipment) = Some equipment
          \<and> rq_startDate body = Some s \<and> rq_endDate body = Some e
          \<and> bookings d' = bookings d @ [b]
          \<and> b_totalPrice b = e_dailyRate equipment * totalDays s e
          \<and> totalDays s e = max 1 (\<lceil>real_of_int (e - s) / (1000 * 3600 * 24)\<rceil> + 1)
          \<and> (\<forall>b' c. res = Created b' c \<longrightarrow> b' = b)"
  proof (cases "createPaymentSession ev gw (bookings_id_seq d)
                (e_dailyRate equipment * totalDays s e * 100) (e_name equipment)")
    case (Inl err)
    with acc run u have "res = ErrorJson 400 ''Payment order creation failed'' (Some err)"
      and "\<exists>b. bookings d' = bookings d @ [b] \<and> b_totalPrice b = e_dailyRate equipment * totalDays s e"
      by (auto simp: Let_def)
    with b eq eid show ?thesis
      using totalDays_ceiling [of s e] by auto
  next
    case (Inr order)
    with acc run u have "\<exists>b. res = Created b order \<and> bookings d' = bookings d @ [b]
         \<and> b_totalPrice b = e_dailyRate equipment * totalDays s e"
      by (auto simp: Let_def)
    with b eq eid show ?thesis
      using totalDays_ceiling [of s e] by auto
  qed
next
  show "e_dailyRate tractor = 500" by (simp add: tractor_def)
next
  show "max 1 (\<lceil>real_of_int (june_3 - june_1) / (1000 * 3600 * 24)\<rceil> + 1) = (3::int)"
    by (simp add: june_1_def june_3_def)
next
  show "map b_totalPrice
        (bookings (snd (post_bookings ev0 (Order (Some ''order_1'')) may_30 (Some 7) body_june db0)))
       = [1500]"
    by code_simp
qed

text \<open>The theorem at the June request on the example database.\<close>

theorem booking_total_price_witness:
  "keys_ok db0
   \<and> bookings (snd (post_bookings ev0 (Order (Some ''order_1'')) may_30 (Some 7) body_june db0)) \<noteq> bookings db0
   \<and> (\<exists>b. bookings (snd (post_bookings ev0 (Order (Some ''order_1'')) may_30 (Some 7) body_june db0)) = bookings db0 @ [b]
          \<and> b_totalPrice b = 500 * totalDays june_1 june_3)"
proof -
  let ?R = "post_bookings ev0 (Order (Some ''order_1'')) may_30 (Some 7) body_june db0"
  have k: "keys_ok db0" by code_simp
  have ch: "bookings (snd ?R) \<noteq> bookings db0" by code_simp
  have h: "keys_ok db0 \<and> ?R = (fst ?R, snd ?R) \<and> bookings (snd ?R) \<noteq> bookings db0"
    using k ch by simp
  from booking_total_price [THEN conjunct1, rule_format, OF h]
  obtain equipment s e b where
    "rq_equipmentId body_june = Some (e_id equipment)"
    "getEquipment db0 (e_id equipment) = Some equipment"
    "rq_startDate body_june = Some s" "rq_endDate body_june = Some e"
    "bookings (snd ?R) = bookings db0 @ [b]"
    "b_totalPrice b = e_dailyRate equipment * totalDays s e"
    by blast
  then have "bookings (snd ?R) = bookings db0 @ [b] \<and> b_totalPrice b = 500 * totalDays june_1 june_3"
    by (auto simp: body_june_def getEquipment_def db0_def tractor_def)
  with k ch show ?thesis by blast
qed

section \<open>C6: validation of a booking request\<close>

text \<open>
  Claim C6 as stated fails: the handler compares the two dates neither with each other
  nor with the clock. On 10 June a request from 3 June back to 1 June is accepted; the
  booking awaits payment and the tractor is locked.
\<close>

theorem booking_dates_not_validated_counterexample:
  "rq_startDate body_backwards = Some june_3 \<and> rq_endDate body_backwards = Some june_1
   \<and> june_1 < june_3 \<and> june_3 < june_10
   \<and> bookings db0 = []
   \<and> map b_status (bookings (snd (post_bookings ev0 (Order (Some ''order_1'')) june_10 (Some 7) body_backwards db0)))
       = [''awaiting_payment'']
   \<and> map e_availability (equipmentTable (snd (post_bookings ev0 (Order (Some ''order_1'')) june_10 (Some 7) body_backwards db0)))
       = [False]"
  by code_simp

text \<open>
  Claim C6, amended. The handler validates the shape of the request only. It answers
  \<open>400 Invalid booking data\<close> exactly when the body has no numeric \<open>equipmentId\<close> or one of
  the two dates cannot be coerced to a valid date, and then the database is unchanged.
\<close>

theorem booking_request_shape_validated:
  "(fst (post_bookings ev gw now (Some userId) body d) = ErrorJson 400 ''Invalid booking data'' None)
     = (rq_equipmentId body = None \<or> rq_startDate body = None \<or> rq_endDate body = None)
   \<and> (rq_equipmentId body = None \<or> rq_startDate body = None \<or> rq_endDate body = None
        \<longrightarrow> snd (post_bookings ev gw now (Some userId) body d) = d)"
proof -
  have bad: "post_bookings ev gw now (Some userId) body d = (ErrorJson 400 ''Invalid booking data'' None, d)"
    if "rq_equipmentId body = None \<or> rq_startDate body = None \<or> rq_endDate body = None"
    using that by (auto simp: post_bookings_def insertBookingSchema_def split: option.splits)
  have good: "fst (post_bookings ev gw now (Some userId) body d) \<noteq> ErrorJson 400 ''Invalid booking data'' None"
    if "\<not> (rq_equipmentId body = None \<or> rq_startDate body = None \<or> rq_endDate body = None)"
  proof -
    from that obtain eid s e where b: "rq_equipmentId body = Some eid" "rq_startDate body = Some s"
      "rq_endDate body = Some e" by auto
    show ?thesis
      using revert_lock_response
      by (auto simp: post_bookings_def insertBookingSchema_def b Let_def
            split: option.splits prod.splits sum.splits dest: lock_and_order_Inr)
  qed
  from bad good show ?thesis by (metis fst_conv snd_conv)
qed

text \<open>The theorem at a request without dates.\<close>

theorem booking_request_shape_validated_witness:
  "rq_startDate body_no_dates = None
   \<and> post_bookings ev0 (Order (Some ''order_1'')) may_30 (Some 7) body_no_dates db0
       = (ErrorJson 400 ''Invalid booking data'' None, db0)"
proof -
  have n: "rq_equipmentId body_no_dates = None \<or> rq_startDate body_no_dates = None \<or> rq_endDate body_no_dates = None"
    by (simp add: body_no_dates_def)
  note t = booking_request_shape_validated [of ev0 "Order (Some ''order_1'')" may_30 7 body_no_dates db0]
  from t n have "fst (post_bookings ev0 (Order (Some ''order_1'')) may_30 (Some 7) body_no_dates db0) = ErrorJson 400 ''Invalid booking data'' None"
    and "snd (post_bookings ev0 (Order (Some ''order_1'')) may_30 (Some 7) body_no_dates db0) = db0"
    by blast+
  then show ?thesis by (simp add: body_no_dates_def prod_eq_iff)
qed

section \<open>C7: recovery from a gateway failure\<close>



section \<open>C8: a signature that does not match\<close>

text \<open>
  Claim C8. A signature that differs from the keyed hash of \<open>orderId | paymentId\<close> under
  the key secret is refused by \<open>verifyPaymentSignature\<close>, and a verification request that
  carries it is answered with an error (status 400 or 404) and leaves the database as it
  was: the booking keeps its status and no receipt is written. When the four fields are
  present and the booking and its equipment exist, the error is
  \<open>Invalid payment signature\<close>.
\<close>

theorem tampered_signature_changes_nothing:
  assumes "signature \<noteq> H (RAZORPAY_KEY_SECRET ev) (orderId @ ''|'' @ paymentId)"
  shows "\<not> verifyPaymentSignature H ev orderId paymentId signature
    \<and> (\<forall>bookingId. \<exists>code message.
          post_verify_payment H ev now
            \<lparr> vb_bookingId = bookingId, vb_razorpay_order_id = Some orderId,
              vb_razorpay_payment_id = Some paymentId,
              vb_razorpay_signature = Some signature \<rparr> d
          = (ErrorJson code message None, d)
          \<and> (code = 400 \<or> code = 404)
          \<and> (\<forall>i booking equipment.
                bookingId = Some i \<and> i \<noteq> 0 \<and> orderId \<noteq> [] \<and> paymentId \<noteq> [] \<and> signature \<noteq> []
                \<and> getBooking d i = Some booking
                \<and> getEquipment d (b_equipmentId booking) = Some equipment
                \<longrightarrow> message = ''Invalid payment signature''))"
proof -
  have v: "\<not> verifyPaymentSignature H ev orderId paymentId signature"
    using assms by (auto simp: verifyPaymentSignature_def Let_def)
  show ?thesis
  proof (intro conjI allI)
    show "\<not> verifyPaymentSignature H ev orderId paymentId signature" by (rule v)
  next
    fix bookingId
    show "\<exists>code message.
          post_verify_payment H ev now
            \<lparr> vb_bookingId = bookingId, vb_razorpay_order_id = Some orderId,
              vb_razorpay_payment_id = Some paymentId,
              vb_razorpay_signature = Some signature \<rparr> d
          = (ErrorJson code message None, d)
          \<and> (code = 400 \<or> code = 404)
          \<and> (\<forall>i booking equipment.
                bookingId = Some i \<and> i \<noteq> 0 \<and> orderId \<noteq> [] \<and> paymentId \<noteq> [] \<and> signature \<noteq> []
                \<and> getBooking d i = Some booking
                \<and> getEquipment d (b_equipmentId booking) = Some equipment
                \<longrightarrow> message = ''Invalid payment signature'')"
      using v by (auto simp: post_verify_payment_def split: option.splits)
  qed
qed

text \<open>The theorem at a forged signature for the booking that awaits payment.\<close>

theorem tampered_signature_changes_nothing_witness:
  "''forged'' \<noteq> H0 (RAZORPAY_KEY_SECRET ev0) (''order_1'' @ ''|'' @ ''pay_1'')
   \<and> \<not> verifyPaymentSignature H0 ev0 ''order_1'' ''pay_1'' ''forged''
   \<and> post_verify_payment H0 ev0 may_30 verify_body_tampered db_awaiting
       = (ErrorJson 400 ''Invalid payment signature'' None, db_awaiting)
   \<and> map b_status (bookings db_awaiting) = [''awaiting_payment'']
   \<and> receipts db_awaiting = []"
proof -
  have h: "''forged'' \<noteq> H0 (RAZORPAY_KEY_SECRET ev0) (''order_1'' @ ''|'' @ ''pay_1'')"
    by (simp add: H0_def ev0_def)
  have bk: "getBooking db_awaiting 1 \<noteq> None" "map_option b_equipmentId (getBooking db_awaiting 1) = Some 1"
      "getEquipment db_awaiting 1 \<noteq> None"
    by code_simp+
  have st: "map b_status (bookings db_awaiting) = [''awaiting_payment'']" "receipts db_awaiting = []"
    by code_simp+
  from tampered_signature_changes_nothing
         [where H = H0 and ev = ev0 and orderId = "''order_1''" and paymentId = "''pay_1''"
            and signature = "''forged''" and now = may_30 and d = db_awaiting, OF h]
  have v: "\<not> verifyPaymentSignature H0 ev0 ''order_1'' ''pay_1'' ''forged''"
    and r: "\<exists>code message.
          post_verify_payment H0 ev0 may_30 verify_body_tampered db_awaiting
          = (ErrorJson code message None, db_awaiting)
          \<and> (code = 400 \<or> code = 404)
          \<and> (\<forall>i booking equipment.
                Some 1 = Some i \<and> i \<noteq> 0 \<and> ''order_1'' \<noteq> [] \<and> ''pay_1'' \<noteq> [] \<and> ''forged'' \<noteq> []
                \<and> getBooking db_awaiting i = Some booking
                \<and> getEquipment db_awaiting (b_equipmentId booking) = Some equipment
                \<longrightarrow> message = ''Invalid payment signature'')"
    unfolding verify_body_tampered_def by blast+
  from r bk obtain code where
    "post_verify_payment H0 ev0 may_30 verify_body_tampered db_awaiting
          = (ErrorJson code ''Invalid payment signature'' None, db_awaiting)"
    by (auto simp: )
  moreover have "fst (post_verify_payment H0 ev0 may_30 verify_body_tampered db_awaiting)
      = ErrorJson 400 ''Invalid payment signature'' None" by code_simp
  ultimately have "post_verify_payment H0 ev0 may_30 verify_body_tampered db_awaiting
          = (ErrorJson 400 ''Invalid payment signature'' None, db_awaiting)" by simp
  with h v st show ?thesis by simp
qed

section \<open>C9: what the webhook endpoint answers\<close>




section \<open>C10: receipt lookup\<close>



end
